theory Spec2Isabelle
  imports Complex_Main "HOL-Library.List_Lexorder" "HOL-Library.Sublist"
begin

section \<open>JavaScript strings\<close>

text \<open>
  A JavaScript string is a sequence of UTF-16 code units. A code unit is modelled by its
  number, a string by the list of its code units; \<open>js\<close> turns an ASCII literal into such
  a list. The order \<open><\<close> on lists (lexicographic, a proper prefix is smaller) is the order
  JavaScript's relational operators use on strings.
\<close>

type_synonym jschar = nat
type_synonym jsstring = "jschar list"

definition js :: "string \<Rightarrow> jsstring" where
  "js s = map of_char s"

abbreviation DQ :: jschar where "DQ \<equiv> 34"
abbreviation COMMA :: jschar where "COMMA \<equiv> 44"
abbreviation SEMI :: jschar where "SEMI \<equiv> 59"
abbreviation DOT :: jschar where "DOT \<equiv> 46"
abbreviation LF :: jschar where "LF \<equiv> 10"
abbreviation CR :: jschar where "CR \<equiv> 13"

text \<open>
  The characters that \<open>String.prototype.trim\<close> strips and that the regular expression
  class \<open>\s\<close> matches: WhiteSpace and LineTerminator of ECMAScript.
\<close>

definition isWhiteSpace :: "jschar \<Rightarrow> bool" where
  "isWhiteSpace c =
     (c = 9 \<or> c = 10 \<or> c = 11 \<or> c = 12 \<or> c = 13 \<or> c = 32 \<or> c = 160 \<or> c = 5760 \<or>
      (8192 \<le> c \<and> c \<le> 8202) \<or> c = 8232 \<or> c = 8233 \<or> c = 8239 \<or> c = 8287 \<or>
      c = 12288 \<or> c = 65279)"

definition trim :: "jsstring \<Rightarrow> jsstring" where
  "trim s = rev (dropWhile isWhiteSpace (rev (dropWhile isWhiteSpace s)))"

text \<open>\<open>text[i + 1] === d\<close>: false at the end of the text, where the read is \<open>undefined\<close>.\<close>

fun nextIs :: "jschar \<Rightarrow> jsstring \<Rightarrow> bool" where
  "nextIs d [] = False"
| "nextIs d (x # xs) = (x = d)"

section \<open>The tokenizer: parseCSV\<close>

record csv_state =
  lines :: "jsstring list list"
  currentLine :: "jsstring list"
  currentField :: jsstring
  inQuotes :: bool

definition csv_init :: csv_state where
  "csv_init = \<lparr>lines = [], currentLine = [], currentField = [], inQuotes = False\<rparr>"

text \<open>\<open>currentLine.push(currentField.trim()); currentField = ''\<close>\<close>

definition pushField :: "csv_state \<Rightarrow> csv_state" where
  "pushField st =
     st\<lparr>currentLine := currentLine st @ [trim (currentField st)], currentField := []\<rparr>"

text \<open>
  The end of a row (and the end of the text): the last field is pushed, the row is kept
  if some field of it is not empty, and a new row is started.
\<close>

definition pushLine :: "csv_state \<Rightarrow> csv_state" where
  "pushLine st =
     (let line = currentLine st @ [trim (currentField st)]
      in st\<lparr>lines := (if list_ex (\<lambda>f. 0 < length f) line then lines st @ [line] else lines st),
            currentLine := [], currentField := []\<rparr>)"

definition addChar :: "jschar \<Rightarrow> csv_state \<Rightarrow> csv_state" where
  "addChar c st = st\<lparr>currentField := currentField st @ [c]\<rparr>"

text \<open>
  The \<open>for\<close> loop over the text, as a recursion over the characters that are left. The
  loop's \<open>i++\<close> inside the body (skipping the second quote of a pair, and the line feed
  after a carriage return) drops one more character.
\<close>

fun scan :: "csv_state \<Rightarrow> jsstring \<Rightarrow> csv_state" where
  "scan st [] = st"
| "scan st (c # cs) =
     (if inQuotes st then
        (if c = DQ \<and> nextIs DQ cs then scan (addChar DQ st) (tl cs)
         else if c = DQ then scan (st\<lparr>inQuotes := False\<rparr>) cs
         else scan (addChar c st) cs)
      else
        (if c = DQ then scan (st\<lparr>inQuotes := True\<rparr>) cs
         else if c = COMMA \<or> c = SEMI then scan (pushField st) cs
         else if c = LF \<or> (c = CR \<and> nextIs LF cs)
           then scan (pushLine st) (if c = CR then tl cs else cs)
         else if c = CR then scan st cs
         else scan (addChar c st) cs))"

definition parseCSV :: "jsstring \<Rightarrow> jsstring list list" where
  "parseCSV text = lines (pushLine (scan csv_init text))"

text \<open>
  Writing a field the way a CSV writer quotes it: in double quotes, with every quote
  character of the content doubled.
\<close>

definition escapeQuotes :: "jsstring \<Rightarrow> jsstring" where
  "escapeQuotes s = concat (map (\<lambda>c. if c = DQ then [DQ, DQ] else [c]) s)"

definition quoteField :: "jsstring \<Rightarrow> jsstring" where
  "quoteField s = DQ # escapeQuotes s @ [DQ]"

section \<open>Numbers\<close>

text \<open>
  A JavaScript number is an IEEE 754 double. A finite double is modelled by the rational
  it stands for, \<open>Num q\<close>, next to the two infinities and NaN. The two zeros, which are
  equal under \<open>===\<close> and both falsy, are the one value \<open>Num 0\<close>.

  \<open>double q\<close> is the double that the rational \<open>q\<close> is rounded to, to the nearest with ties
  to the even significand: 53 bits of precision, exponents from \<open>-1022\<close> (below it the
  spacing of the subnormal numbers, \<open>2 ^ -1074\<close>), and an infinity when the rounded value
  reaches \<open>2 ^ 1024\<close>.
\<close>

datatype jsnum = Num rat | PosInf | NegInf | NaN

text \<open>The number of binary digits of a positive integer.\<close>

function bits :: "int \<Rightarrow> nat" where
  "bits n = (if n \<le> 0 then 0 else Suc (bits (n div 2)))"
  by pat_completeness auto
termination
  by (relation "measure nat") auto

declare bits.simps [simp del]

definition pow2 :: "int \<Rightarrow> rat" where
  "pow2 k = (if 0 \<le> k then 2 ^ nat k else 1 / 2 ^ nat (- k))"

text \<open>The binary exponent of a positive rational: \<open>pow2 (ilog2 a) \<le> a < pow2 (ilog2 a + 1)\<close>.\<close>

definition ilog2 :: "rat \<Rightarrow> int" where
  "ilog2 a =
     (if 1 \<le> a then int (bits \<lfloor>a\<rfloor>) - 1 else - int (bits (\<lceil>1 / a\<rceil> - 1)))"

definition roundHalfEven :: "rat \<Rightarrow> int" where
  "roundHalfEven m =
     (if m - of_int \<lfloor>m\<rfloor> < 1 / 2 then \<lfloor>m\<rfloor>
      else if 1 / 2 < m - of_int \<lfloor>m\<rfloor> then \<lfloor>m\<rfloor> + 1
      else if even \<lfloor>m\<rfloor> then \<lfloor>m\<rfloor> else \<lfloor>m\<rfloor> + 1)"

definition double :: "rat \<Rightarrow> jsnum" where
  "double q =
     (if q = 0 then Num 0
      else
        (let a = \<bar>q\<bar>;
             u = pow2 (max (ilog2 a) (- 1022) - 52);
             r = of_int (roundHalfEven (a / u)) * u
         in if pow2 1024 \<le> r then (if q < 0 then NegInf else PosInf)
            else Num (if q < 0 then - r else r)))"

fun isNaN :: "jsnum \<Rightarrow> bool" where
  "isNaN NaN = True"
| "isNaN _ = False"

text \<open>\<open>ToBoolean\<close> of a number: zero and NaN are falsy.\<close>

fun truthy :: "jsnum \<Rightarrow> bool" where
  "truthy (Num q) = (q \<noteq> 0)"
| "truthy NaN = False"
| "truthy _ = True"

fun num_neg :: "jsnum \<Rightarrow> jsnum" where
  "num_neg (Num q) = Num (- q)"
| "num_neg PosInf = NegInf"
| "num_neg NegInf = PosInf"
| "num_neg NaN = NaN"

text \<open>
  Addition of doubles: the exact sum of two finite numbers is rounded, and may overflow to
  an infinity; the sum of the two opposite infinities is NaN.
\<close>

fun num_add :: "jsnum \<Rightarrow> jsnum \<Rightarrow> jsnum" where
  "num_add (Num a) (Num b) = double (a + b)"
| "num_add NaN y = NaN"
| "num_add x NaN = NaN"
| "num_add PosInf NegInf = NaN"
| "num_add NegInf PosInf = NaN"
| "num_add PosInf y = PosInf"
| "num_add NegInf y = NegInf"
| "num_add (Num a) y = y"

text \<open>Subtraction of doubles is the addition of the negated number.\<close>

definition num_sub :: "jsnum \<Rightarrow> jsnum \<Rightarrow> jsnum" where
  "num_sub x y = num_add x (num_neg y)"

subsection \<open>parseFloat\<close>

text \<open>
  The built-in \<open>parseFloat\<close>: leading white space is skipped, the longest prefix that is
  a \<open>StrDecimalLiteral\<close> (a sign, then \<open>Infinity\<close> or decimal digits with an optional
  fraction and an optional exponent) is the number, the double that its decimal value is
  rounded to, and NaN is returned when no prefix is one.
\<close>

definition isDigit :: "jschar \<Rightarrow> bool" where
  "isDigit c = (48 \<le> c \<and> c \<le> 57)"

definition digitsVal :: "jsstring \<Rightarrow> nat" where
  "digitsVal ds = foldl (\<lambda>acc d. 10 * acc + (d - 48)) 0 ds"

text \<open>
  The factor of an \<open>ExponentPart\<close> at the head of the rest: \<open>e\<close> or \<open>E\<close>, an optional
  sign and at least one digit; otherwise the exponent is not part of the literal.
\<close>

definition exponentFactor :: "jsstring \<Rightarrow> rat" where
  "exponentFactor r =
     (if nextIs 101 r \<or> nextIs 69 r then
        (let r' = tl r;
             ds = takeWhile isDigit (if nextIs 43 r' \<or> nextIs 45 r' then tl r' else r')
         in if ds = [] then 1
            else if nextIs 45 r' then 1 / 10 ^ digitsVal ds
            else 10 ^ digitsVal ds)
      else 1)"

definition parseFloat :: "jsstring \<Rightarrow> jsnum" where
  "parseFloat s =
     (let t = dropWhile isWhiteSpace s;
          u = (if nextIs 43 t \<or> nextIs 45 t then tl t else t)
      in if prefix (js ''Infinity'') u then (if nextIs 45 t then NegInf else PosInf)
         else
           (let ip = takeWhile isDigit u;
                r1 = dropWhile isDigit u;
                fp = (if nextIs DOT r1 then takeWhile isDigit (tl r1) else []);
                r2 = (if nextIs DOT r1 then dropWhile isDigit (tl r1) else r1)
            in if ip = [] \<and> fp = [] then NaN
               else double ((if nextIs 45 t then - 1 else 1) *
                            (of_nat (digitsVal ip) + of_nat (digitsVal fp) / 10 ^ length fp) *
                            exponentFactor r2)))"

section \<open>The value normalizer: parseCurrencyValue\<close>

text \<open>
  The character class of the first \<open>replace\<close>: the euro sign (U+20AC), the dollar sign,
  the pound sign (U+00A3), the peso sign (U+20B1) and \<open>\s\<close>.
\<close>

definition isCurrencyOrSpace :: "jschar \<Rightarrow> bool" where
  "isCurrencyOrSpace c = (c = 8364 \<or> c = 36 \<or> c = 163 \<or> c = 8369 \<or> isWhiteSpace c)"

text \<open>\<open>s.lastIndexOf(c)\<close>, which is \<open>-1\<close> when \<open>c\<close> does not occur.\<close>

definition lastIndexOf :: "jsstring \<Rightarrow> jschar \<Rightarrow> int" where
  "lastIndexOf s c =
     (if c \<in> set s then int (length s) - 1 - int (length (takeWhile (\<lambda>x. x \<noteq> c) (rev s)))
      else - 1)"

text \<open>\<open>s.replace(c, d)\<close> with a string pattern: only the first occurrence is replaced.\<close>

fun replaceFirst :: "jschar \<Rightarrow> jschar \<Rightarrow> jsstring \<Rightarrow> jsstring" where
  "replaceFirst c d [] = []"
| "replaceFirst c d (x # xs) = (if x = c then d # xs else x # replaceFirst c d xs)"

text \<open>\<open>s.split(c)\<close>; the result is never empty.\<close>

fun split_str :: "jschar \<Rightarrow> jsstring \<Rightarrow> jsstring list" where
  "split_str c [] = [[]]"
| "split_str c (x # xs) =
     (if x = c then [] # split_str c xs
      else (case split_str c xs of [] \<Rightarrow> [[x]] | p # ps \<Rightarrow> (x # p) # ps))"

text \<open>
  The string that is given to \<open>parseFloat\<close>: currency symbols and white space are
  removed, and commas and dots are rewritten. \<open>removeAll c\<close> is the global
  \<open>replace(/c/g, '')\<close>.
\<close>

definition cleanValue :: "jsstring \<Rightarrow> jsstring" where
  "cleanValue v =
     (let cleaned = filter (\<lambda>c. \<not> isCurrencyOrSpace c) v
      in if COMMA \<in> set cleaned \<and> DOT \<in> set cleaned then
           (if lastIndexOf cleaned COMMA > lastIndexOf cleaned DOT
            then replaceFirst COMMA DOT (removeAll DOT cleaned)
            else removeAll COMMA cleaned)
         else if COMMA \<in> set cleaned \<and> DOT \<notin> set cleaned then
           (if length (last (split_str COMMA cleaned)) = 2
            then replaceFirst COMMA DOT cleaned
            else removeAll COMMA cleaned)
         else cleaned)"

text \<open>
  The argument is a cell of a row, which is \<open>undefined\<close> (\<open>None\<close>) when the row is too
  short; \<open>!value\<close> holds for \<open>undefined\<close> and for the empty string.
\<close>

definition parseCurrencyValue :: "jsstring option \<Rightarrow> jsnum" where
  "parseCurrencyValue value =
     (case value of
        None \<Rightarrow> Num 0
      | Some v \<Rightarrow>
          if v = [] \<or> trim v = [] then Num 0
          else (let num = parseFloat (cleanValue v) in if isNaN num then Num 0 else num))"

section \<open>The format detector: detectYNABFormat\<close>

text \<open>
  \<open>String.prototype.toLowerCase\<close> follows the Unicode case tables, which are not part of
  the program: every function that lowers a string takes the built-in as its first
  argument \<open>lc\<close>. \<open>asciiLower\<close> is what the built-in does on ASCII text.
\<close>

definition asciiLower :: "jsstring \<Rightarrow> jsstring" where
  "asciiLower s = map (\<lambda>c. if 65 \<le> c \<and> c \<le> 90 then c + 32 else c) s"

datatype ynab_format = Register | Networth

text \<open>\<open>headers.map(h => h.toLowerCase().trim())\<close>\<close>

definition headersOf :: "(jsstring \<Rightarrow> jsstring) \<Rightarrow> jsstring list \<Rightarrow> jsstring list" where
  "headersOf lc headers = map (\<lambda>h. trim (lc h)) headers"

definition detectYNABFormat :: "(jsstring \<Rightarrow> jsstring) \<Rightarrow> jsstring list \<Rightarrow> ynab_format option" where
  "detectYNABFormat lc headers =
     (let headerSet = set (headersOf lc headers)
      in if js ''month'' \<in> headerSet \<and> js ''account type'' \<in> headerSet then Some Networth
         else if js ''inflow'' \<in> headerSet \<and> js ''outflow'' \<in> headerSet \<and>
                 js ''account'' \<in> headerSet then Some Register
         else None)"

section \<open>The account classifier: suggestAccountType\<close>

text \<open>
  The regular expressions of the classifier are alternatives of sequences of literal
  characters, \<open>\s*\<close> and \<open>c?\<close>. \<open>matchHere p s\<close> holds when the sequence \<open>p\<close> matches a
  prefix of \<open>s\<close>; \<open>regexTest\<close> is \<open>RegExp.prototype.test\<close>: some alternative matches at some
  position.
\<close>

datatype atom = Chr jschar | WsStar | OptChr jschar

fun matchHere :: "atom list \<Rightarrow> jsstring \<Rightarrow> bool" where
  "matchHere [] s = True"
| "matchHere (Chr c # p) [] = False"
| "matchHere (Chr c # p) (x # xs) = (x = c \<and> matchHere p xs)"
| "matchHere (OptChr c # p) [] = matchHere p []"
| "matchHere (OptChr c # p) (x # xs) = ((x = c \<and> matchHere p xs) \<or> matchHere p (x # xs))"
| "matchHere (WsStar # p) [] = matchHere p []"
| "matchHere (WsStar # p) (x # xs) =
     ((isWhiteSpace x \<and> matchHere (WsStar # p) xs) \<or> matchHere p (x # xs))"

definition regexTest :: "atom list list \<Rightarrow> jsstring \<Rightarrow> bool" where
  "regexTest alts s = list_ex (\<lambda>p. list_ex (matchHere p) (suffixes s)) alts"

definition lit :: "string \<Rightarrow> atom list" where
  "lit w = map (\<lambda>c. Chr (of_char c)) w"

text \<open>\<open>/credit|visa|mastercard|amex|card|loan|mortgage|debt|owe/\<close>\<close>

definition liabilityRegex :: "atom list list" where
  "liabilityRegex =
     [lit ''credit'', lit ''visa'', lit ''mastercard'', lit ''amex'', lit ''card'',
      lit ''loan'', lit ''mortgage'', lit ''debt'', lit ''owe'']"

text \<open>\<open>/mortgage|home\s*loan|car\s*loan|student\s*loan|auto\s*loan/\<close>\<close>

definition longTermRegex :: "atom list list" where
  "longTermRegex =
     [lit ''mortgage'', lit ''home'' @ WsStar # lit ''loan'', lit ''car'' @ WsStar # lit ''loan'',
      lit ''student'' @ WsStar # lit ''loan'', lit ''auto'' @ WsStar # lit ''loan'']"

text \<open>\<open>/401k|401\(k\)|ira|roth|pension|retirement|super|sss|pag-?ibig/\<close>\<close>

definition retirementRegex :: "atom list list" where
  "retirementRegex =
     [lit ''401k'', lit ''401(k)'', lit ''ira'', lit ''roth'', lit ''pension'',
      lit ''retirement'', lit ''super'', lit ''sss'', lit ''pag'' @ OptChr 45 # lit ''ibig'']"

text \<open>\<open>/invest|brokerage|stock|etf|fund|portfolio|trading/\<close>\<close>

definition investmentRegex :: "atom list list" where
  "investmentRegex =
     [lit ''invest'', lit ''brokerage'', lit ''stock'', lit ''etf'', lit ''fund'',
      lit ''portfolio'', lit ''trading'']"

text \<open>\<open>/property|real\s*estate|house|home|condo|apartment|land/\<close>\<close>

definition realEstateRegex :: "atom list list" where
  "realEstateRegex =
     [lit ''property'', lit ''real'' @ WsStar # lit ''estate'', lit ''house'', lit ''home'',
      lit ''condo'', lit ''apartment'', lit ''land'']"

text \<open>\<open>/check|saving|cash|wallet|emergency|petty|current\s*account/\<close>\<close>

definition liquidRegex :: "atom list list" where
  "liquidRegex =
     [lit ''check'', lit ''saving'', lit ''cash'', lit ''wallet'', lit ''emergency'',
      lit ''petty'', lit ''current'' @ WsStar # lit ''account'']"

text \<open>
  Modelled from the spec: the types \<open>AccountCategory\<close> and \<open>AccessType\<close> are imported from
  a module that is not among the sources; their values are those the data model lists for
  \<open>suggestedCategory\<close> and \<open>suggestedAccessType\<close>.
\<close>

datatype AccountCategory =
  current_asset | non_current_asset | current_liability | non_current_liability

datatype AccessType = liquid | illiquid | retirement

text \<open>
  The type hint is declared as \<open>'Asset' | 'Liability'\<close> or absent; at run time it is
  whatever string the caller passes, and the function compares it with \<open>===\<close>.
\<close>

definition suggestAccountType ::
  "(jsstring \<Rightarrow> jsstring) \<Rightarrow> jsstring \<Rightarrow> jsstring option \<Rightarrow> AccountCategory \<times> AccessType" where
  "suggestAccountType lc nm ynabType =
     (let lower = lc nm
      in if ynabType = Some (js ''Liability'') \<or> regexTest liabilityRegex lower then
           (if regexTest longTermRegex lower then (non_current_liability, illiquid)
            else (current_liability, liquid))
         else if regexTest retirementRegex lower then (non_current_asset, retirement)
         else if regexTest investmentRegex lower then (non_current_asset, liquid)
         else if regexTest realEstateRegex lower then (non_current_asset, illiquid)
         else if regexTest liquidRegex lower then (current_asset, liquid)
         else if ynabType = Some (js ''Asset'') then (current_asset, liquid)
         else (current_asset, liquid))"

section \<open>The row aggregators\<close>

record YNABParsedAccount =
  name :: jsstring
  balance :: jsnum
  ynabType :: "jsstring option"
  suggestedCategory :: AccountCategory
  suggestedAccessType :: AccessType

text \<open>
  The four failures of the pipeline. The code throws \<open>Error\<close> objects that differ in
  their message only; the two messages for missing columns name the format.
\<close>

datatype error = EmptyDocument | UnrecognizedFormat | MissingColumns ynab_format | NoAccountsFound

text \<open>\<open>xs.findIndex(P)\<close> and \<open>xs.indexOf(x)\<close>, which are \<open>-1\<close> when nothing is found.\<close>

fun findIndex :: "('a \<Rightarrow> bool) \<Rightarrow> 'a list \<Rightarrow> int" where
  "findIndex P [] = - 1"
| "findIndex P (x # xs) =
     (if P x then 0 else (let r = findIndex P xs in if r < 0 then - 1 else r + 1))"

definition indexOf :: "'a list \<Rightarrow> 'a \<Rightarrow> int" where
  "indexOf xs x = findIndex (\<lambda>y. y = x) xs"

text \<open>
  \<open>row[idx]\<close>: reading an array out of range, also at index \<open>-1\<close>, gives \<open>undefined\<close>
  and does not throw.
\<close>

definition cell :: "'a list \<Rightarrow> int \<Rightarrow> 'a option" where
  "cell row idx = (if 0 \<le> idx \<and> nat idx < length row then Some (row ! nat idx) else None)"

text \<open>\<open>s.includes(t)\<close>: \<open>t\<close> occurs in \<open>s\<close> as a contiguous substring.\<close>

fun str_includes :: "jsstring \<Rightarrow> jsstring \<Rightarrow> bool" where
  "str_includes [] t = (t = [])"
| "str_includes (x # xs) t = (prefix t (x # xs) \<or> str_includes xs t)"

text \<open>
  A \<open>Map\<close> keeps its keys in the order of their first insertion: an association list
  in which \<open>set\<close> replaces the value of a key that is present and appends a new key.
\<close>

fun mapSet :: "'k \<Rightarrow> 'v \<Rightarrow> ('k \<times> 'v) list \<Rightarrow> ('k \<times> 'v) list" where
  "mapSet k v [] = [(k, v)]"
| "mapSet k v ((k', v') # m) = (if k' = k then (k, v) # m else (k', v') # mapSet k v m)"

subsection \<open>parseNetWorthReport\<close>

text \<open>The first loop: the greatest month of the data rows, starting from the empty string.\<close>

definition monthStep :: "int \<Rightarrow> jsstring \<Rightarrow> jsstring list \<Rightarrow> jsstring" where
  "monthStep monthIdx mostRecentMonth row =
     (case cell row monthIdx of
        None \<Rightarrow> mostRecentMonth
      | Some month \<Rightarrow> if month \<noteq> [] \<and> month > mostRecentMonth then month else mostRecentMonth)"

text \<open>The body of the second loop, on the map from account names to balance and type.\<close>

definition netWorthStep ::
  "int \<Rightarrow> int \<Rightarrow> int \<Rightarrow> int \<Rightarrow> jsstring \<Rightarrow> (jsstring \<times> jsnum \<times> jsstring option) list \<Rightarrow>
   jsstring list \<Rightarrow> (jsstring \<times> jsnum \<times> jsstring option) list" where
  "netWorthStep accountIdx typeIdx balanceIdx monthIdx mostRecentMonth accountMap row =
     (let month = (if monthIdx \<ge> 0 then cell row monthIdx else Some mostRecentMonth)
      in if month \<noteq> Some mostRecentMonth then accountMap
         else
           (case cell row accountIdx of
              None \<Rightarrow> accountMap
            | Some accountName \<Rightarrow>
                if accountName = [] \<or> trim accountName = [] then accountMap
                else
                  (let bal = parseCurrencyValue (cell row balanceIdx);
                       ty = (if typeIdx \<ge> 0 then cell row typeIdx else None)
                   in mapSet accountName (bal, ty) accountMap)))"

definition netWorthAccount ::
  "(jsstring \<Rightarrow> jsstring) \<Rightarrow> jsstring \<times> jsnum \<times> jsstring option \<Rightarrow> YNABParsedAccount" where
  "netWorthAccount lc e =
     (case e of (nm, bal, ty) \<Rightarrow>
        (let suggested = suggestAccountType lc nm ty
         in \<lparr>name = nm, balance = bal, ynabType = ty,
             suggestedCategory = fst suggested, suggestedAccessType = snd suggested\<rparr>))"

definition parseNetWorthReport ::
  "(jsstring \<Rightarrow> jsstring) \<Rightarrow> jsstring list list \<Rightarrow> error + YNABParsedAccount list" where
  "parseNetWorthReport lc rows =
     (if length rows < 2 then Inr []
      else
        (let headers = headersOf lc (hd rows);
             accountIdx = indexOf headers (js ''account'');
             typeIdx = indexOf headers (js ''account type'');
             balanceIdx = findIndex (\<lambda>h. h = js ''balance'' \<or> str_includes h (js ''balance'')) headers;
             monthIdx = indexOf headers (js ''month'')
         in if accountIdx = - 1 \<or> balanceIdx = - 1 then Inl (MissingColumns Networth)
            else
              (let mostRecentMonth = foldl (monthStep monthIdx) [] (tl rows);
                   accountMap =
                     foldl (netWorthStep accountIdx typeIdx balanceIdx monthIdx mostRecentMonth)
                       [] (tl rows)
               in Inr (map (netWorthAccount lc) accountMap))))"

subsection \<open>parseRegister\<close>

text \<open>
  The body of the loop. \<open>accountBalances.get(accountName) || 0\<close> is 0 when the key is
  absent and also when the stored balance is falsy.
\<close>

definition registerStep ::
  "int \<Rightarrow> int \<Rightarrow> int \<Rightarrow> (jsstring \<times> jsnum) list \<Rightarrow> jsstring list \<Rightarrow> (jsstring \<times> jsnum) list" where
  "registerStep accountIdx inflowIdx outflowIdx accountBalances row =
     (case cell row accountIdx of
        None \<Rightarrow> accountBalances
      | Some accountName \<Rightarrow>
          if accountName = [] \<or> trim accountName = [] then accountBalances
          else
            (let inflow = parseCurrencyValue (cell row inflowIdx);
                 outflow = parseCurrencyValue (cell row outflowIdx);
                 netAmount = num_sub inflow outflow;
                 currentBalance =
                   (case map_of accountBalances accountName of
                      None \<Rightarrow> Num 0
                    | Some b \<Rightarrow> if truthy b then b else Num 0)
             in mapSet accountName (num_add currentBalance netAmount) accountBalances))"

definition registerAccount ::
  "(jsstring \<Rightarrow> jsstring) \<Rightarrow> jsstring \<times> jsnum \<Rightarrow> YNABParsedAccount" where
  "registerAccount lc e =
     (case e of (nm, bal) \<Rightarrow>
        (let suggested = suggestAccountType lc nm None
         in \<lparr>name = nm, balance = bal, ynabType = None,
             suggestedCategory = fst suggested, suggestedAccessType = snd suggested\<rparr>))"

definition parseRegister ::
  "(jsstring \<Rightarrow> jsstring) \<Rightarrow> jsstring list list \<Rightarrow> error + YNABParsedAccount list" where
  "parseRegister lc rows =
     (if length rows < 2 then Inr []
      else
        (let headers = headersOf lc (hd rows);
             accountIdx = indexOf headers (js ''account'');
             inflowIdx = indexOf headers (js ''inflow'');
             outflowIdx = indexOf headers (js ''outflow'')
         in if accountIdx = - 1 \<or> inflowIdx = - 1 \<or> outflowIdx = - 1
            then Inl (MissingColumns Register)
            else Inr (map (registerAccount lc)
                       (foldl (registerStep accountIdx inflowIdx outflowIdx) [] (tl rows)))))"

section \<open>The pipeline: parseYNABCSV\<close>

text \<open>\<open>parseDate\<close> is the clock at the time of the call, which is an argument here.\<close>

record YNABParseResult =
  format :: ynab_format
  accounts :: "YNABParsedAccount list"
  parseDate :: nat

definition parseYNABCSV ::
  "(jsstring \<Rightarrow> jsstring) \<Rightarrow> nat \<Rightarrow> jsstring \<Rightarrow> error + YNABParseResult" where
  "parseYNABCSV lc now csvText =
     (let rows = parseCSV csvText
      in if length rows = 0 then Inl EmptyDocument
         else
           (case detectYNABFormat lc (hd rows) of
              None \<Rightarrow> Inl UnrecognizedFormat
            | Some fmt \<Rightarrow>
                (case (if fmt = Networth then parseNetWorthReport lc rows else parseRegister lc rows) of
                   Inl e \<Rightarrow> Inl e
                 | Inr accts \<Rightarrow>
                     if length accts = 0 then Inl NoAccountsFound
                     else Inr \<lparr>format = fmt, accounts = accts, parseDate = now\<rparr>)))"

section \<open>The similarity scorer: stringSimilarity\<close>

text \<open>
  The matrix of the edit distance is filled row by row. \<open>fillRow bc as prev left\<close> is the
  inner loop for one character \<open>bc\<close> of \<open>b\<close>: \<open>as\<close> are the characters of \<open>a\<close> that are
  left, \<open>prev\<close> is the row above from the column before the current one, and \<open>left\<close> is the
  entry just written in this row.
\<close>

fun fillRow :: "jschar \<Rightarrow> jsstring \<Rightarrow> nat list \<Rightarrow> nat \<Rightarrow> nat list" where
  "fillRow bc (ac # as) (diag # up # prev) left =
     (let v = (if bc = ac then diag else min (diag + 1) (min (left + 1) (up + 1)))
      in v # fillRow bc as (up # prev) v)"
| "fillRow bc as prev left = []"

text \<open>Row \<open>i\<close> of the matrix from row \<open>i - 1\<close>: its first entry is \<open>i\<close>.\<close>

definition nextRow :: "jsstring \<Rightarrow> nat list \<times> nat \<Rightarrow> jschar \<Rightarrow> nat list \<times> nat" where
  "nextRow a st bc = (case st of (prev, i) \<Rightarrow> (i # fillRow bc a prev i, Suc i))"

text \<open>\<open>matrix[bLower.length][aLower.length]\<close>: the last entry of the last row.\<close>

definition levenshtein :: "jsstring \<Rightarrow> jsstring \<Rightarrow> nat" where
  "levenshtein a b = last (fst (foldl (nextRow a) ([0..<Suc (length a)], 1) b))"

text \<open>The score is a ratio of small integers, which is kept exact.\<close>

definition stringSimilarity :: "(jsstring \<Rightarrow> jsstring) \<Rightarrow> jsstring \<Rightarrow> jsstring \<Rightarrow> rat" where
  "stringSimilarity lc a b =
     (let aLower = trim (lc a);
          bLower = trim (lc b)
      in if aLower = bLower then 1
         else if length aLower = 0 \<or> length bLower = 0 then 0
         else if str_includes aLower bLower \<or> str_includes bLower aLower then
           7 / 10 + 3 / 10 * (of_nat (min (length aLower) (length bLower)) /
                              of_nat (max (length aLower) (length bLower)))
         else 1 - of_nat (levenshtein aLower bLower) /
                  of_nat (max (length aLower) (length bLower)))"

text \<open>
  The recurrence that the matrix tabulates, for the proofs: \<open>editRec xs ys\<close> is the entry
  for the prefix of \<open>a\<close> whose reversal is \<open>xs\<close> and the prefix of \<open>b\<close> whose reversal is
  \<open>ys\<close>, and \<open>rowRec pre as ys\<close> is the row for \<open>ys\<close> from the column of \<open>pre\<close> on.
\<close>

fun editRec :: "jsstring \<Rightarrow> jsstring \<Rightarrow> nat" where
  "editRec [] ys = length ys"
| "editRec (x # xs) [] = Suc (length xs)"
| "editRec (x # xs) (y # ys) =
     (if y = x then editRec xs ys
      else min (editRec xs ys + 1) (min (editRec xs (y # ys) + 1) (editRec (x # xs) ys + 1)))"

fun rowRec :: "jsstring \<Rightarrow> jsstring \<Rightarrow> jsstring \<Rightarrow> nat list" where
  "rowRec pre [] ys = [editRec pre ys]"
| "rowRec pre (x # as) ys = editRec pre ys # rowRec (x # pre) as ys"

section \<open>The claims' formulations\<close>

subsection \<open>The classifier as a list of rules\<close>

text \<open>
  The classifier in the words of the spec, to be compared with \<open>suggestAccountType\<close>: an
  ordered list of rules, each a cue on the lowercased name and the type hint together
  with its result. The first rule whose cue holds gives the result; the fallback applies
  when no cue holds.
\<close>

definition liabilityCue :: "jsstring \<Rightarrow> jsstring option \<Rightarrow> bool" where
  "liabilityCue lower hint = (hint = Some (js ''Liability'') \<or> regexTest liabilityRegex lower)"

definition spec_rules ::
  "((jsstring \<Rightarrow> jsstring option \<Rightarrow> bool) \<times> AccountCategory \<times> AccessType) list" where
  "spec_rules =
     [(\<lambda>lower hint. liabilityCue lower hint \<and> regexTest longTermRegex lower,
         non_current_liability, illiquid),
      (\<lambda>lower hint. liabilityCue lower hint, current_liability, liquid),
      (\<lambda>lower hint. regexTest retirementRegex lower, non_current_asset, retirement),
      (\<lambda>lower hint. regexTest investmentRegex lower, non_current_asset, liquid),
      (\<lambda>lower hint. regexTest realEstateRegex lower, non_current_asset, illiquid),
      (\<lambda>lower hint. regexTest liquidRegex lower, current_asset, liquid)]"

definition spec_classify :: "jsstring \<Rightarrow> jsstring option \<Rightarrow> AccountCategory \<times> AccessType" where
  "spec_classify lower hint =
     (case find (\<lambda>r. fst r lower hint) spec_rules of
        Some r \<Rightarrow> snd r
      | None \<Rightarrow> (current_asset, liquid))"

subsection \<open>The aggregations as the claims word them\<close>

text \<open>
  The account name a row bears, if any: its account cell, when the cell is there and is
  not blank.
\<close>

definition accountOf :: "int \<Rightarrow> jsstring list \<Rightarrow> jsstring option" where
  "accountOf accountIdx row =
     (case cell row accountIdx of
        None \<Rightarrow> None
      | Some a \<Rightarrow> if trim a = [] then None else Some a)"

text \<open>The distinct elements of a list, in the order of their first occurrence.\<close>

definition firstOccurrences :: "'a list \<Rightarrow> 'a list" where
  "firstOccurrences xs = rev (remdups (rev xs))"

definition accountNames :: "int \<Rightarrow> jsstring list list \<Rightarrow> jsstring list" where
  "accountNames accountIdx rows = firstOccurrences (List.map_filter (accountOf accountIdx) rows)"

text \<open>The rows that bear the account name \<open>n\<close>.\<close>

definition rowsOf :: "int \<Rightarrow> jsstring \<Rightarrow> jsstring list list \<Rightarrow> jsstring list list" where
  "rowsOf accountIdx n rows = filter (\<lambda>r. accountOf accountIdx r = Some n) rows"

text \<open>
  The lexicographically greatest month value of the data rows (the empty string when no
  row has a month value), and the rows that are included: all rows when there is no month
  column, and otherwise the rows whose month value is the greatest one.
\<close>

definition spec_maxMonth :: "int \<Rightarrow> jsstring list list \<Rightarrow> jsstring" where
  "spec_maxMonth monthIdx rows = Max (set ([] # List.map_filter (\<lambda>r. cell r monthIdx) rows))"

definition spec_selected :: "int \<Rightarrow> jsstring list list \<Rightarrow> jsstring list list" where
  "spec_selected monthIdx rows =
     (if monthIdx \<ge> 0
      then filter (\<lambda>r. cell r monthIdx = Some (spec_maxMonth monthIdx rows)) rows
      else rows)"

text \<open>
  One entry per account name: the balance and the type of the last row that bears the
  name.
\<close>

definition spec_lastWins ::
  "int \<Rightarrow> int \<Rightarrow> int \<Rightarrow> jsstring list list \<Rightarrow> (jsstring \<times> jsnum \<times> jsstring option) list" where
  "spec_lastWins accountIdx typeIdx balanceIdx rows =
     map (\<lambda>n. (n, parseCurrencyValue (cell (last (rowsOf accountIdx n rows)) balanceIdx),
               (if typeIdx \<ge> 0 then cell (last (rowsOf accountIdx n rows)) typeIdx else None)))
       (accountNames accountIdx rows)"

text \<open>The body of the second loop on a row that is included.\<close>

definition lastWinsStep ::
  "int \<Rightarrow> int \<Rightarrow> int \<Rightarrow> (jsstring \<times> jsnum \<times> jsstring option) list \<Rightarrow> jsstring list \<Rightarrow>
   (jsstring \<times> jsnum \<times> jsstring option) list" where
  "lastWinsStep ai ti bi m r =
     (case accountOf ai r of
        None \<Rightarrow> m
      | Some n \<Rightarrow> mapSet n (parseCurrencyValue (cell r bi), (if ti \<ge> 0 then cell r ti else None)) m)"








subsection \<open>The failures of the pipeline as the claims word them\<close>

text \<open>The required columns of the detected format are absent from the header row.\<close>

definition spec_missingColumns ::
  "(jsstring \<Rightarrow> jsstring) \<Rightarrow> ynab_format \<Rightarrow> jsstring list \<Rightarrow> bool" where
  "spec_missingColumns lc fmt hdr =
     (case fmt of
        Networth \<Rightarrow>
          \<not> (js ''account'' \<in> set (headersOf lc hdr) \<and>
             list_ex (\<lambda>h. str_includes h (js ''balance'')) (headersOf lc hdr))
      | Register \<Rightarrow>
          \<not> (js ''account'' \<in> set (headersOf lc hdr) \<and> js ''inflow'' \<in> set (headersOf lc hdr) \<and>
             js ''outflow'' \<in> set (headersOf lc hdr)))"

text \<open>The accounts that the aggregator of the format yields, none when it fails.\<close>

definition aggregate ::
  "(jsstring \<Rightarrow> jsstring) \<Rightarrow> ynab_format \<Rightarrow> jsstring list list \<Rightarrow> YNABParsedAccount list" where
  "aggregate lc fmt rows =
     (case (if fmt = Networth then parseNetWorthReport lc rows else parseRegister lc rows) of
        Inl e \<Rightarrow> []
      | Inr accts \<Rightarrow> accts)"


section \<open>Rules for evaluating the definitions\<close>

lemma trim_Nil [simp]: "trim [] = []"
  by (simp add: trim_def)

lemma double_not_NaN [simp]: "\<not> isNaN (double q)"
  by (simp add: double_def Let_def)

lemma double_zero [simp]: "double 0 = Num 0"
  by (simp add: double_def)

text \<open>Evaluating \<open>double\<close>: the floor of a quotient of numerals is their integer quotient.\<close>

lemma floor_numeral_div:
  "\<lfloor>(numeral a :: rat) / numeral b\<rfloor> = numeral a div numeral b"
  "\<lfloor>- ((numeral a :: rat) / numeral b)\<rfloor> = (- numeral a) div numeral b"
  using floor_divide_of_int_eq [of "numeral a" "numeral b", where ?'a = rat]
    floor_divide_of_int_eq [of "- numeral a" "numeral b", where ?'a = rat]
  by simp_all

lemmas double_eval = ilog2_def bits.simps pow2_def roundHalfEven_def floor_numeral_div ceiling_def

text \<open>Small integers are doubles.\<close>

lemma double_values:
  "double 1 = Num 1" "double 5 = Num 5" "double (- 5) = Num (- 5)" "double 10 = Num 10"
  "double 40 = Num 40" "double (- 40) = Num (- 40)" "double 60 = Num 60"
  "double 100 = Num 100" "double 300 = Num 300"
  unfolding double_def Let_def by (simp_all add: double_eval)

lemmas csv_eval = parseCSV_def csv_init_def pushLine_def pushField_def addChar_def trim_def
  isWhiteSpace_def js_def Let_def

lemmas regex_eval = regexTest_def liabilityRegex_def longTermRegex_def retirementRegex_def
  investmentRegex_def realEstateRegex_def liquidRegex_def lit_def isWhiteSpace_def

lemmas currency_eval = double_values parseCurrencyValue_def cleanValue_def js_def trim_def isWhiteSpace_def isCurrencyOrSpace_def
  parseFloat_def isDigit_def digitsVal_def exponentFactor_def lastIndexOf_def Let_def

lemmas header_eval = headersOf_def asciiLower_def indexOf_def cell_def js_def trim_def
  isWhiteSpace_def

lemmas names_eval = accountNames_def firstOccurrences_def rowsOf_def accountOf_def map_filter_def

lemmas pipeline_eval = detectYNABFormat_def parseNetWorthReport_def parseRegister_def
  netWorthStep_def monthStep_def registerStep_def netWorthAccount_def registerAccount_def
  suggestAccountType_def num_sub_def

lemmas similarity_eval = stringSimilarity_def levenshtein_def nextRow_def asciiLower_def trim_def
  isWhiteSpace_def js_def Let_def

section \<open>Properties of the tokenizer\<close>

lemma scan_escaped:
  "inQuotes st \<Longrightarrow>
   scan st (escapeQuotes s @ [DQ]) = st\<lparr>currentField := currentField st @ s, inQuotes := False\<rparr>"
proof (induction s arbitrary: st)
  case Nil
  then show ?case by (simp add: escapeQuotes_def)
next
  case (Cons c s)
  have q: "inQuotes (addChar x st)" for x
    using Cons.prems by (simp add: addChar_def)
  show ?case
  proof (cases "c = DQ")
    case True
    have "scan st (escapeQuotes (c # s) @ [DQ]) = scan (addChar DQ st) (escapeQuotes s @ [DQ])"
      using True Cons.prems by (simp add: escapeQuotes_def)
    also have "\<dots> = (addChar DQ st)\<lparr>currentField := currentField (addChar DQ st) @ s,
                                     inQuotes := False\<rparr>"
      by (rule Cons.IH [OF q])
    finally show ?thesis using True by (simp add: addChar_def)
  next
    case False
    have "scan st (escapeQuotes (c # s) @ [DQ]) = scan (addChar c st) (escapeQuotes s @ [DQ])"
      using False Cons.prems by (simp add: escapeQuotes_def)
    also have "\<dots> = (addChar c st)\<lparr>currentField := currentField (addChar c st) @ s,
                                    inQuotes := False\<rparr>"
      by (rule Cons.IH [OF q])
    finally show ?thesis by (simp add: addChar_def)
  qed
qed

lemma parseCSV_quoteField:
  "parseCSV (quoteField s) = (if trim s = [] then [] else [[trim s]])"
proof -
  have "scan csv_init (quoteField s) =
        scan (csv_init\<lparr>inQuotes := True\<rparr>) (escapeQuotes s @ [DQ])"
    by (simp add: quoteField_def csv_init_def)
  also have "\<dots> = csv_init\<lparr>currentField := s, inQuotes := False\<rparr>"
    using scan_escaped [of "csv_init\<lparr>inQuotes := True\<rparr>" s] by (simp add: csv_init_def)
  finally show ?thesis
    by (simp add: parseCSV_def pushLine_def csv_init_def)
qed

lemma inQuotes_pushLine [simp]: "inQuotes (pushLine st) = inQuotes st"
  by (simp add: pushLine_def Let_def)

lemma inQuotes_pushField [simp]: "inQuotes (pushField st) = inQuotes st"
  by (simp add: pushField_def)

lemma inQuotes_addChar [simp]: "inQuotes (addChar c st) = inQuotes st"
  by (simp add: addChar_def)

lemma nextIs_append: "nextIs d (xs @ ys) = (if xs = [] then nextIs d ys else nextIs d xs)"
  by (cases xs) simp_all

lemma scan_append:
  "\<not> nextIs DQ b \<Longrightarrow> \<not> nextIs LF b \<or> a = [] \<or> last a \<noteq> CR \<Longrightarrow>
   scan st (a @ b) = scan (scan st a) b"
proof (induction st a rule: scan.induct)
  case (1 st)
  then show ?case by simp
next
  case (2 st c cs)
  show ?case
  proof (cases cs)
    case Nil
    with 2 show ?thesis by auto
  next
    case (Cons d ds)
    then have l: "\<not> nextIs LF b \<or> tl cs = [] \<or> last (tl cs) \<noteq> CR"
      using "2.prems"(2) by (cases ds) auto
    have l': "\<not> nextIs LF b \<or> cs = [] \<or> last cs \<noteq> CR"
      using "2.prems"(2) Cons by auto
    show ?thesis
      using "2.IH" "2.prems"(1) l l' Cons by (auto simp: nextIs_append)
  qed
qed

lemma scan_line_feed:
  assumes "\<not> inQuotes (scan st a)"
  shows "scan st (a @ LF # b) = scan (pushLine (scan st a)) b"
proof (cases "a = [] \<or> last a \<noteq> CR")
  case True
  then have "scan st (a @ LF # b) = scan (scan st a) (LF # b)"
    by (intro scan_append) auto
  then show ?thesis using assms by simp
next
  case False
  then obtain a' where a: "a = a' @ [CR]"
    by (metis append_butlast_last_id)
  have s: "scan st (a' @ [CR]) = scan (scan st a') [CR]"
    by (intro scan_append) auto
  have q: "\<not> inQuotes (scan st a')"
  proof
    assume "inQuotes (scan st a')"
    then have "inQuotes (scan st (a' @ [CR]))" by (simp add: s)
    then show False using assms a by simp
  qed
  have "scan st (a @ LF # b) = scan (scan st a') (CR # LF # b)"
    unfolding a using scan_append [of "CR # LF # b" a' st] by simp
  also have "\<dots> = scan (pushLine (scan st a')) b" using q by simp
  also have "scan st a' = scan st a" using q by (simp add: a s)
  finally show ?thesis .
qed

lemma scan_carriage_return:
  assumes "\<not> inQuotes (scan st a)"
  shows "scan st (a @ CR # b) = (if nextIs LF b then scan (pushLine (scan st a)) (tl b)
                                 else scan (scan st a) b)"
proof -
  have "scan st (a @ CR # b) = scan (scan st a) (CR # b)"
    by (intro scan_append) auto
  then show ?thesis using assms by simp
qed

lemma scan_lines_prefix:
  "scan (st\<lparr>lines := L @ lines st\<rparr>) xs = (scan st xs)\<lparr>lines := L @ lines (scan st xs)\<rparr>"
proof (induction st xs rule: scan.induct)
  case (1 st)
  then show ?case by simp
next
  case (2 st c cs)
  have a: "addChar x (st\<lparr>lines := L @ lines st\<rparr>) = (addChar x st)\<lparr>lines := L @ lines (addChar x st)\<rparr>" for x
    by (simp add: addChar_def)
  have f: "pushField (st\<lparr>lines := L @ lines st\<rparr>) = (pushField st)\<lparr>lines := L @ lines (pushField st)\<rparr>"
    by (simp add: pushField_def)
  have l: "pushLine (st\<lparr>lines := L @ lines st\<rparr>) = (pushLine st)\<lparr>lines := L @ lines (pushLine st)\<rparr>"
    by (simp add: pushLine_def Let_def)
  have q: "(st\<lparr>lines := L @ lines st\<rparr>)\<lparr>inQuotes := v\<rparr> = (st\<lparr>inQuotes := v\<rparr>)\<lparr>lines := L @ lines (st\<lparr>inQuotes := v\<rparr>)\<rparr>" for v
    by simp
  show ?case
    using 2 by (simp add: a f l q del: scan.simps(2) add: scan.simps(2) [of "st\<lparr>lines := L @ lines st\<rparr>"] scan.simps(2) [of st])
qed

lemma parseCSV_row_break:
  assumes "\<not> inQuotes (scan csv_init a)"
  shows "lines (pushLine (scan (pushLine (scan csv_init a)) b)) = parseCSV a @ parseCSV b"
proof -
  have "pushLine (scan csv_init a) = csv_init\<lparr>lines := parseCSV a @ lines csv_init\<rparr>"
    using assms by (simp add: parseCSV_def pushLine_def csv_init_def Let_def)
  then have "scan (pushLine (scan csv_init a)) b =
             (scan csv_init b)\<lparr>lines := parseCSV a @ lines (scan csv_init b)\<rparr>"
    by (simp only: scan_lines_prefix)
  then show ?thesis
    by (simp add: parseCSV_def pushLine_def Let_def)
qed

text \<open>
  Claim C4, as the code has it: a field content with a comma, a semicolon or a line break,
  written in double quotes with its quote characters doubled, is read back by \<open>parseCSV\<close>
  as one row of one field, which is the content trimmed (and as no row when the content
  is white space only). The content comes back exactly when it has no white space at
  either end.
\<close>

theorem parseCSV_roundtrip_trimmed:
  assumes "COMMA \<in> set s \<or> SEMI \<in> set s \<or> LF \<in> set s \<or> CR \<in> set s"
  shows "parseCSV (quoteField s) = (if trim s = [] then [] else [[trim s]]) \<and>
         (trim s = s \<longrightarrow> parseCSV (quoteField s) = [[s]])"
  using assms by (auto simp: parseCSV_quoteField)

theorem parseCSV_roundtrip_trimmed_witness:
  "COMMA \<in> set (js ''a,\"b\";c'' @ LF # js ''d'') \<and>
   trim (js ''a,\"b\";c'' @ LF # js ''d'') = js ''a,\"b\";c'' @ LF # js ''d'' \<and>
   parseCSV (quoteField (js ''a,\"b\";c'' @ LF # js ''d'')) = [[js ''a,\"b\";c'' @ LF # js ''d'']]"
  using parseCSV_roundtrip_trimmed [of "js ''a,\"b\";c'' @ LF # js ''d''"]
  by (simp add: js_def trim_def isWhiteSpace_def)

theorem roundtrip_counterexample:
  "COMMA \<in> set (js '' a,b'') \<and> parseCSV (quoteField (js '' a,b'')) \<noteq> [[js '' a,b'']]"
  by (simp add: parseCSV_quoteField js_def trim_def isWhiteSpace_def)

text \<open>
  Claim C8, as the code has it: outside a quoted field a carriage return that is not
  followed by a line feed is dropped, the scan going on from the state it had reached (the
  carriage return is neither a row break nor content of the field), and a line feed and
  the pair carriage return, line feed each end exactly one row.
\<close>

theorem parseCSV_line_breaks:
  assumes "\<not> inQuotes (scan csv_init a)"
  shows "(\<not> nextIs LF b \<longrightarrow> scan csv_init (a @ CR # b) = scan (scan csv_init a) b) \<and>
         (\<not> nextIs LF b \<and> \<not> nextIs DQ b \<longrightarrow> parseCSV (a @ CR # b) = parseCSV (a @ b)) \<and>
         parseCSV (a @ LF # b) = parseCSV a @ parseCSV b \<and>
         parseCSV (a @ CR # LF # b) = parseCSV a @ parseCSV b"
proof (intro conjI impI)
  show "scan csv_init (a @ CR # b) = scan (scan csv_init a) b" if "\<not> nextIs LF b"
    using that by (simp add: scan_carriage_return [OF assms])
  show "parseCSV (a @ CR # b) = parseCSV (a @ b)" if "\<not> nextIs LF b \<and> \<not> nextIs DQ b"
  proof -
    have "scan csv_init (a @ b) = scan (scan csv_init a) b"
      using that by (intro scan_append) auto
    then show ?thesis
      using that by (simp add: parseCSV_def scan_carriage_return [OF assms])
  qed
  show "parseCSV (a @ LF # b) = parseCSV a @ parseCSV b"
    using parseCSV_row_break [OF assms, of b]
    by (simp add: parseCSV_def scan_line_feed [OF assms])
  show "parseCSV (a @ CR # LF # b) = parseCSV a @ parseCSV b"
    using parseCSV_row_break [OF assms, of b]
    by (simp add: parseCSV_def scan_carriage_return [OF assms])
qed

theorem parseCSV_line_breaks_witness:
  "\<not> inQuotes (scan csv_init (js ''\"x,\",y'')) \<and> \<not> nextIs LF (js ''z'') \<and>
   \<not> nextIs DQ (js ''z'') \<and>
   parseCSV (js ''\"x,\",y'' @ CR # js ''z'') = [[js ''x,'', js ''yz'']] \<and>
   parseCSV (js ''\"x,\",y'' @ LF # js ''z'') = [[js ''x,'', js ''y''], [js ''z'']] \<and>
   parseCSV (js ''\"x,\",y'' @ CR # LF # js ''z'') = [[js ''x,'', js ''y''], [js ''z'']]"
  using parseCSV_line_breaks [of "js ''\"x,\",y''" "js ''z''"]
  by (simp add: csv_eval)

theorem bare_CR_counterexample:
  "parseCSV (js ''a'' @ CR # js ''b'') = [[js ''ab'']] \<and>
   parseCSV (js ''a'' @ CR # js ''b'') \<noteq> [[js ''a'' @ CR # js ''b'']] \<and>
   parseCSV (js ''a b'') = [[js ''a b'']]"
  by (simp add: csv_eval)

section \<open>Properties of the similarity scorer\<close>

lemma editRec_Nil2: "editRec xs [] = length xs"
  by (cases xs) simp_all

lemma editRec_sym: "editRec xs ys = editRec ys xs"
proof (induction xs ys rule: editRec.induct)
  case (1 ys)
  then show ?case by (simp add: editRec_Nil2)
next
  case (2 x xs)
  then show ?case by simp
next
  case (3 x xs y ys)
  then show ?case by (auto simp: min.commute min.left_commute)
qed

lemma rowRec_hd: "rowRec pre as ys = editRec pre ys # tl (rowRec pre as ys)"
  by (cases as) simp_all

lemma rowRec_last: "last (rowRec pre as ys) = editRec (rev as @ pre) ys"
proof (induction as arbitrary: pre)
  case Nil
  then show ?case by simp
next
  case (Cons x as)
  have "rowRec (x # pre) as ys \<noteq> []" by (cases as) simp_all
  then show ?case using Cons.IH [of "x # pre"] by simp
qed

lemma rowRec_init: "rowRec pre as [] = [length pre..<Suc (length pre + length as)]"
proof (induction as arbitrary: pre)
  case Nil
  then show ?case by (simp add: editRec_Nil2)
next
  case (Cons x as)
  have "[length pre..<Suc (length pre + length (x # as))] =
        length pre # [length (x # pre)..<Suc (length (x # pre) + length as)]"
    by (simp add: upt_conv_Cons del: upt_Suc)
  then show ?case using Cons.IH [of "x # pre"]
    by (simp add: editRec_Nil2 del: upt_Suc)
qed

lemma fillRow_rowRec:
  "fillRow bc as (rowRec pre as ys) (editRec pre (bc # ys)) = tl (rowRec pre as (bc # ys))"
proof (induction as arbitrary: pre)
  case Nil
  then show ?case by simp
next
  case (Cons x as)
  obtain rest where r: "rowRec (x # pre) as ys = editRec (x # pre) ys # rest"
    using rowRec_hd [of "x # pre" as ys] by blast
  have v: "(if bc = x then editRec pre ys
            else min (editRec pre ys + 1) (min (editRec pre (bc # ys) + 1) (editRec (x # pre) ys + 1)))
           = editRec (x # pre) (bc # ys)"
    by simp
  have "fillRow bc (x # as) (rowRec pre (x # as) ys) (editRec pre (bc # ys))
        = editRec (x # pre) (bc # ys) #
          fillRow bc as (rowRec (x # pre) as ys) (editRec (x # pre) (bc # ys))"
    unfolding rowRec.simps r fillRow.simps Let_def v ..
  also have "\<dots> = editRec (x # pre) (bc # ys) # tl (rowRec (x # pre) as (bc # ys))"
    by (simp only: Cons.IH)
  also have "\<dots> = rowRec (x # pre) as (bc # ys)"
    using rowRec_hd [of "x # pre" as "bc # ys"] by simp
  finally show ?case by simp
qed

lemma nextRow_rowRec:
  "nextRow a (rowRec [] a ys, Suc (length ys)) bc = (rowRec [] a (bc # ys), Suc (Suc (length ys)))"
proof -
  have "Suc (length ys) # fillRow bc a (rowRec [] a ys) (Suc (length ys)) = rowRec [] a (bc # ys)"
    using fillRow_rowRec [of bc a "[]" ys] rowRec_hd [of "[]" a "bc # ys"] by simp
  then show ?thesis by (simp add: nextRow_def)
qed

lemma foldl_nextRow:
  "foldl (nextRow a) (rowRec [] a ys, Suc (length ys)) b =
   (rowRec [] a (rev b @ ys), Suc (length ys + length b))"
proof (induction b arbitrary: ys)
  case Nil
  then show ?case by simp
next
  case (Cons bc b)
  show ?case using Cons.IH [of "bc # ys"] by (simp add: nextRow_rowRec)
qed

lemma levenshtein_editRec: "levenshtein a b = editRec (rev a) (rev b)"
proof -
  have "foldl (nextRow a) ([0..<Suc (length a)], 1) b = (rowRec [] a (rev b), Suc (length b))"
    using foldl_nextRow [of a "[]" b] by (simp add: rowRec_init)
  then show ?thesis by (simp add: levenshtein_def rowRec_last)
qed

lemma levenshtein_sym: "levenshtein a b = levenshtein b a"
  by (simp add: levenshtein_editRec editRec_sym [of "rev a"])

text \<open>
  Claim C5: for every pair of strings \<open>a\<close> and \<open>b\<close> (and whatever the case mapping is),
  \<open>stringSimilarity a b\<close> and \<open>stringSimilarity b a\<close> are the same number.
\<close>

theorem stringSimilarity_symmetric:
  "stringSimilarity lc a b = stringSimilarity lc b a"
proof -
  have "levenshtein (trim (lc a)) (trim (lc b)) = levenshtein (trim (lc b)) (trim (lc a))"
    by (rule levenshtein_sym)
  then show ?thesis
    by (auto simp: stringSimilarity_def Let_def min.commute max.commute)
qed

theorem stringSimilarity_symmetric_witness:
  "stringSimilarity asciiLower (js ''Chase'') (js ''chase checking'') = 113 / 140 \<and>
   stringSimilarity asciiLower (js ''chase checking'') (js ''Chase'') = 113 / 140 \<and>
   stringSimilarity asciiLower (js ''kitten'') (js ''Sitting'') = 4 / 7 \<and>
   stringSimilarity asciiLower (js ''Sitting'') (js ''kitten'') = 4 / 7"
  using stringSimilarity_symmetric [of asciiLower "js ''Chase''" "js ''chase checking''"]
    stringSimilarity_symmetric [of asciiLower "js ''kitten''" "js ''Sitting''"]
  by (simp add: similarity_eval)

section \<open>Properties of the classifier and of the value normalizer\<close>

lemma suggestAccountType_spec:
  "suggestAccountType lc nm hint = spec_classify (lc nm) hint"
  by (simp add: suggestAccountType_def spec_classify_def spec_rules_def liabilityCue_def Let_def)

lemma suggest_visa:
  "suggestAccountType asciiLower (js ''Visa Platinum Card'') None = (current_liability, liquid)"
  by (simp add: suggestAccountType_def asciiLower_def js_def regex_eval)

lemma suggest_mortgage:
  "suggestAccountType asciiLower (js ''Home Mortgage'') None = (non_current_liability, illiquid)"
  by (simp add: suggestAccountType_def asciiLower_def js_def regex_eval)

lemma suggest_401k:
  "suggestAccountType asciiLower (js ''401k Retirement'') None = (non_current_asset, retirement)"
  by (simp add: suggestAccountType_def asciiLower_def js_def regex_eval)

lemma suggest_default:
  "\<not> regexTest liabilityRegex (lc nm) \<Longrightarrow> \<not> regexTest retirementRegex (lc nm) \<Longrightarrow>
   \<not> regexTest investmentRegex (lc nm) \<Longrightarrow> \<not> regexTest realEstateRegex (lc nm) \<Longrightarrow>
   \<not> regexTest liquidRegex (lc nm) \<Longrightarrow>
   suggestAccountType lc nm None = (current_asset, liquid)"
  by (simp add: suggestAccountType_def)

text \<open>
  Claim C6: \<open>suggestAccountType\<close> is a function of the lowercased name and the type hint
  alone, and it is the first-match-wins evaluation of the ordered rules. It maps
  "Visa Platinum Card" to (current_liability, liquid), "Home Mortgage" to
  (non_current_liability, illiquid), "401k Retirement" to (non_current_asset, retirement),
  and a name that matches no pattern, without a type hint, to (current_asset, liquid).
\<close>

theorem suggestAccountType_rules:
  "suggestAccountType lc nm hint = spec_classify (lc nm) hint \<and>
   suggestAccountType asciiLower (js ''Visa Platinum Card'') None = (current_liability, liquid) \<and>
   suggestAccountType asciiLower (js ''Home Mortgage'') None = (non_current_liability, illiquid) \<and>
   suggestAccountType asciiLower (js ''401k Retirement'') None = (non_current_asset, retirement) \<and>
   (\<not> regexTest liabilityRegex (lc nm) \<and> \<not> regexTest retirementRegex (lc nm) \<and>
    \<not> regexTest investmentRegex (lc nm) \<and> \<not> regexTest realEstateRegex (lc nm) \<and>
    \<not> regexTest liquidRegex (lc nm) \<longrightarrow>
    suggestAccountType lc nm None = (current_asset, liquid))"
  using suggestAccountType_spec suggest_visa suggest_mortgage suggest_401k suggest_default
  by blast

lemma groceries_unmatched:
  "\<not> regexTest liabilityRegex (asciiLower (js ''Groceries'')) \<and>
   \<not> regexTest retirementRegex (asciiLower (js ''Groceries'')) \<and>
   \<not> regexTest investmentRegex (asciiLower (js ''Groceries'')) \<and>
   \<not> regexTest realEstateRegex (asciiLower (js ''Groceries'')) \<and>
   \<not> regexTest liquidRegex (asciiLower (js ''Groceries''))"
  by (simp add: asciiLower_def js_def regex_eval)

theorem suggestAccountType_rules_witness:
  "\<not> regexTest liabilityRegex (asciiLower (js ''Groceries'')) \<and>
   \<not> regexTest retirementRegex (asciiLower (js ''Groceries'')) \<and>
   \<not> regexTest investmentRegex (asciiLower (js ''Groceries'')) \<and>
   \<not> regexTest realEstateRegex (asciiLower (js ''Groceries'')) \<and>
   \<not> regexTest liquidRegex (asciiLower (js ''Groceries'')) \<and>
   suggestAccountType asciiLower (js ''Groceries'') None = (current_asset, liquid) \<and>
   spec_classify (asciiLower (js ''Groceries'')) None = (current_asset, liquid)"
  using suggestAccountType_rules [of asciiLower "js ''Groceries''" None] groceries_unmatched
  by metis

text \<open>
  With exactly one comma and no dot in the cleaned string, the string given to
  \<open>parseFloat\<close> has the comma as a dot when two characters follow it, and has no comma
  otherwise.
\<close>

lemma split_str_nonempty [simp]: "split_str c s \<noteq> []"
  by (induction s) (auto split: list.splits)

lemma split_str_none: "c \<notin> set q \<Longrightarrow> split_str c q = [q]"
  by (induction q) auto

lemma split_str_first: "c \<notin> set p \<Longrightarrow> split_str c (p @ c # q) = p # split_str c q"
  by (induction p) auto

lemma split_str_last:
  "c \<notin> set p \<Longrightarrow> c \<notin> set q \<Longrightarrow> last (split_str c (p @ c # q)) = q"
  by (simp add: split_str_first split_str_none)

lemma replaceFirst_first: "c \<notin> set p \<Longrightarrow> replaceFirst c d (p @ c # q) = p @ d # q"
  by (induction p) auto

lemma cleanValue_one_comma:
  assumes "filter (\<lambda>c. \<not> isCurrencyOrSpace c) v = p @ COMMA # q"
    and "COMMA \<notin> set p" and "COMMA \<notin> set q" and "DOT \<notin> set p" and "DOT \<notin> set q"
  shows "cleanValue v = (if length q = 2 then p @ DOT # q else p @ q)"
  using assms by (simp add: cleanValue_def split_str_last replaceFirst_first)

text \<open>
  Claim C3 at the input "1,234,56": the substring after the last comma has two characters,
  yet the value is the double 1.234, since \<open>replace(',', '.')\<close> rewrites the first comma and
  \<open>parseFloat\<close> stops at the second. The sibling branch reads "1.234,56" as 1234.56. The
  two values the claim names, for "1,23" and "1,234", are as it says.
\<close>

theorem parseCurrencyValue_two_commas:
  "length (last (split_str COMMA (js ''1,234,56''))) = 2 \<and>
   parseCurrencyValue (Some (js ''1,234,56'')) = double (1234 / 1000) \<and>
   parseCurrencyValue (Some (js ''1.234,56'')) = double (123456 / 100) \<and>
   double (1234 / 1000) = Num (694680242521899 / 562949953421312) \<and>
   double (123456 / 100) = Num (2714826150374277 / 2199023255552) \<and>
   parseCurrencyValue (Some (js ''1,23'')) = double (123 / 100) \<and>
   parseCurrencyValue (Some (js ''1,234'')) = double 1234"
proof -
  have "double (1234 / 1000) = Num (694680242521899 / 562949953421312)"
    and "double (123456 / 100) = Num (2714826150374277 / 2199023255552)"
    unfolding double_def Let_def by (simp_all add: double_eval)
  then show ?thesis
    by (simp add: parseCurrencyValue_def cleanValue_def js_def trim_def isWhiteSpace_def
          isCurrencyOrSpace_def parseFloat_def isDigit_def digitsVal_def exponentFactor_def
          lastIndexOf_def Let_def)
qed

section \<open>Properties of the row aggregators\<close>

subsection \<open>Maps with insertion order\<close>

lemma mapSet_keyed:
  "distinct ns \<Longrightarrow>
   mapSet k v (map (\<lambda>n. (n, g n)) ns) =
   map (\<lambda>n. (n, (g(k := v)) n)) (if k \<in> set ns then ns else ns @ [k])"
  by (induction ns) auto


lemma firstOccurrences_snoc:
  "firstOccurrences (xs @ [x]) = (if x \<in> set xs then firstOccurrences xs else firstOccurrences xs @ [x])"
  by (simp add: firstOccurrences_def)

lemma firstOccurrences_distinct [simp]: "distinct (firstOccurrences xs)"
  by (simp add: firstOccurrences_def)

lemma firstOccurrences_set [simp]: "set (firstOccurrences xs) = set xs"
  by (simp add: firstOccurrences_def)

lemma accountNames_Nil [simp]: "accountNames ai [] = []"
  by (simp add: accountNames_def firstOccurrences_def)


lemma accountNames_distinct [simp]: "distinct (accountNames ai rows)"
  by (simp add: accountNames_def)

lemma accountNames_snoc:
  "accountNames ai (rows @ [r]) =
     (case accountOf ai r of
        None \<Rightarrow> accountNames ai rows
      | Some n \<Rightarrow> if n \<in> set (accountNames ai rows) then accountNames ai rows
                  else accountNames ai rows @ [n])"
  by (auto simp: accountNames_def map_filter_def firstOccurrences_snoc split: option.splits)

lemma rowsOf_snoc:
  "rowsOf ai n (rows @ [r]) = (if accountOf ai r = Some n then rowsOf ai n rows @ [r] else rowsOf ai n rows)"
  by (simp add: rowsOf_def)


subsection \<open>The net-worth aggregator\<close>

lemma monthStep_max:
  "monthStep mi m r = (case cell r mi of None \<Rightarrow> m | Some month \<Rightarrow> max m month)"
  by (auto simp: monthStep_def max_def split: option.splits)

lemma foldl_monthStep:
  "foldl (monthStep mi) m rows = Max (set (m # List.map_filter (\<lambda>r. cell r mi) rows))"
proof (induction rows arbitrary: m)
  case Nil
  then show ?case by (simp add:)
next
  case (Cons r rows)
  show ?case
  proof (cases "cell r mi")
    case None
    then show ?thesis using Cons.IH [of m] by (simp add: monthStep_max)
  next
    case (Some month)
    have "Max (insert m (insert month (set (List.map_filter (\<lambda>r. cell r mi) rows)))) =
          Max (insert (max m month) (set (List.map_filter (\<lambda>r. cell r mi) rows)))"
      by (cases "set (List.map_filter (\<lambda>r. cell r mi) rows) = {}")
         (simp_all add: max.assoc)
    then show ?thesis using Some Cons.IH [of "max m month"]
      by (simp add: monthStep_max)
  qed
qed


lemma netWorthStep_selected:
  "netWorthStep ai ti bi mi M m r =
     (if mi \<ge> 0 \<and> cell r mi \<noteq> Some M then m else lastWinsStep ai ti bi m r)"
  by (auto simp: netWorthStep_def lastWinsStep_def accountOf_def Let_def split: option.splits)

lemma foldl_netWorthStep:
  "foldl (netWorthStep ai ti bi mi M) m rows =
   foldl (lastWinsStep ai ti bi) m (if mi \<ge> 0 then filter (\<lambda>r. cell r mi = Some M) rows else rows)"
  by (induction rows arbitrary: m) (simp_all add: netWorthStep_selected)

lemma lastWinsStep_spec:
  "lastWinsStep ai ti bi (spec_lastWins ai ti bi rows) r = spec_lastWins ai ti bi (rows @ [r])"
proof (cases "accountOf ai r")
  case None
  then show ?thesis
    by (simp add: lastWinsStep_def spec_lastWins_def accountNames_snoc rowsOf_snoc)
next
  case (Some n)
  let ?g = "\<lambda>k. (parseCurrencyValue (cell (last (rowsOf ai k rows)) bi),
                  (if ti \<ge> 0 then cell (last (rowsOf ai k rows)) ti else None))"
  let ?v = "(parseCurrencyValue (cell r bi), (if ti \<ge> 0 then cell r ti else None))"
  have l: "spec_lastWins ai ti bi rows = map (\<lambda>k. (k, ?g k)) (accountNames ai rows)"
    by (simp add: spec_lastWins_def)
  have "lastWinsStep ai ti bi (spec_lastWins ai ti bi rows) r =
        mapSet n ?v (map (\<lambda>k. (k, ?g k)) (accountNames ai rows))"
    using Some by (simp add: lastWinsStep_def l)
  also have "\<dots> = map (\<lambda>k. (k, (?g(n := ?v)) k))
                     (if n \<in> set (accountNames ai rows) then accountNames ai rows
                      else accountNames ai rows @ [n])"
    by (rule mapSet_keyed) simp
  also have "\<dots> = spec_lastWins ai ti bi (rows @ [r])"
    using Some by (auto simp: spec_lastWins_def accountNames_snoc rowsOf_snoc)
  finally show ?thesis .
qed

lemma foldl_lastWinsStep: "foldl (lastWinsStep ai ti bi) [] rows = spec_lastWins ai ti bi rows"
proof (induction rows rule: rev_induct)
  case Nil
  then show ?case by (simp add: spec_lastWins_def)
next
  case (snoc r rows)
  then show ?case by (simp add: lastWinsStep_spec)
qed

lemma netWorth_entries:
  "foldl (netWorthStep ai ti bi mi (foldl (monthStep mi) [] rows)) [] rows =
   spec_lastWins ai ti bi (spec_selected mi rows)"
  by (simp only: foldl_netWorthStep foldl_monthStep foldl_lastWinsStep spec_selected_def
        spec_maxMonth_def)

lemma netWorthAccount_name [simp]: "name (netWorthAccount lc e) = fst e"
  by (simp add: netWorthAccount_def Let_def split: prod.splits)

lemma parseNetWorthReport_entries:
  assumes "indexOf (headersOf lc hdr) (js ''account'') \<noteq> - 1"
    and "findIndex (\<lambda>h. h = js ''balance'' \<or> str_includes h (js ''balance''))
           (headersOf lc hdr) \<noteq> - 1"
  shows "parseNetWorthReport lc (hdr # rows) =
         Inr (map (netWorthAccount lc)
                (spec_lastWins (indexOf (headersOf lc hdr) (js ''account''))
                   (indexOf (headersOf lc hdr) (js ''account type''))
                   (findIndex (\<lambda>h. h = js ''balance'' \<or> str_includes h (js ''balance''))
                      (headersOf lc hdr))
                   (spec_selected (indexOf (headersOf lc hdr) (js ''month'')) rows)))"
proof (cases rows)
  case Nil
  then show ?thesis
    by (simp add: parseNetWorthReport_def spec_lastWins_def spec_selected_def)
next
  case (Cons r rs)
  then have "\<not> length (hdr # rows) < 2" by simp
  then show ?thesis
    using assms by (simp add: parseNetWorthReport_def Let_def netWorth_entries)
qed

text \<open>
  Claim C1: on a document whose header has the account and balance columns,
  \<open>parseNetWorthReport\<close> takes the rows whose month value is the lexicographically greatest
  one when there is a month column, and all rows when there is none; among these rows the
  last row that bears an account name gives the balance and the type of that account, and
  every account name has exactly one entry.
\<close>

theorem parseNetWorthReport_latest_month_last_row:
  assumes "ai = indexOf (headersOf lc hdr) (js ''account'')"
    and "ti = indexOf (headersOf lc hdr) (js ''account type'')"
    and "bi = findIndex (\<lambda>h. h = js ''balance'' \<or> str_includes h (js ''balance'')) (headersOf lc hdr)"
    and "mi = indexOf (headersOf lc hdr) (js ''month'')"
    and "ai \<noteq> - 1" and "bi \<noteq> - 1"
  shows "parseNetWorthReport lc (hdr # rows) =
           Inr (map (netWorthAccount lc) (spec_lastWins ai ti bi (spec_selected mi rows))) \<and>
         distinct (map name (map (netWorthAccount lc) (spec_lastWins ai ti bi (spec_selected mi rows))))"
proof
  show "parseNetWorthReport lc (hdr # rows) =
          Inr (map (netWorthAccount lc) (spec_lastWins ai ti bi (spec_selected mi rows)))"
    using assms parseNetWorthReport_entries [of lc hdr rows] by simp
  have "map name (map (netWorthAccount lc) (spec_lastWins ai ti bi (spec_selected mi rows))) =
        accountNames ai (spec_selected mi rows)"
    by (simp add: spec_lastWins_def comp_def)
  then show "distinct (map name (map (netWorthAccount lc)
               (spec_lastWins ai ti bi (spec_selected mi rows))))"
    by simp
qed

theorem parseNetWorthReport_latest_month_last_row_witness:
  "parseNetWorthReport asciiLower
     [[js ''Month'', js ''Account'', js ''Account Type'', js ''Balance''],
      [js ''2024-01'', js ''Foo'', js ''Asset'', js ''100''],
      [js ''2024-02'', js ''Foo'', js ''Asset'', js ''200''],
      [js ''2024-02'', js ''Bar'', js ''Liability'', js ''-5''],
      [js ''2024-02'', js ''Foo'', js ''Asset'', js ''300''],
      [js ''2024-02'']] =
   Inr [\<lparr>name = js ''Foo'', balance = Num 300, ynabType = Some (js ''Asset''),
          suggestedCategory = current_asset, suggestedAccessType = liquid\<rparr>,
        \<lparr>name = js ''Bar'', balance = Num (- 5), ynabType = Some (js ''Liability''),
          suggestedCategory = current_liability, suggestedAccessType = liquid\<rparr>]"
  using parseNetWorthReport_latest_month_last_row
    [of 1 asciiLower "[js ''Month'', js ''Account'', js ''Account Type'', js ''Balance'']" 2 3 0
       "[[js ''2024-01'', js ''Foo'', js ''Asset'', js ''100''],
         [js ''2024-02'', js ''Foo'', js ''Asset'', js ''200''],
         [js ''2024-02'', js ''Bar'', js ''Liability'', js ''-5''],
         [js ''2024-02'', js ''Foo'', js ''Asset'', js ''300''],
         [js ''2024-02'']]"]
  by (simp add: header_eval names_eval spec_lastWins_def spec_selected_def spec_maxMonth_def
        netWorthAccount_def suggestAccountType_def regex_eval
        currency_eval)

subsection \<open>The register aggregator\<close>









lemma registerAccount_name [simp]: "name (registerAccount lc e) = fst e"
  by (simp add: registerAccount_def Let_def split: prod.splits)






section \<open>Properties of the pipeline\<close>

subsection \<open>Column indices\<close>

lemma findIndex_range: "- 1 \<le> findIndex P xs \<and> findIndex P xs < int (length xs)"
  by (induction xs) (auto simp: Let_def)

lemma findIndex_absent: "findIndex P xs = - 1 \<longleftrightarrow> \<not> list_ex P xs"
proof (induction xs)
  case Nil
  then show ?case by simp
next
  case (Cons x xs)
  have "- 1 \<le> findIndex P xs" using findIndex_range [of P xs] by simp
  with Cons show ?case by (auto simp: Let_def)
qed

lemma indexOf_absent: "indexOf xs x = - 1 \<longleftrightarrow> x \<notin> set xs"
  by (auto simp: indexOf_def findIndex_absent list_ex_iff)


lemma str_includes_self [simp]: "str_includes s s"
  by (cases s) simp_all

lemma balance_column:
  "list_ex (\<lambda>h. h = js ''balance'' \<or> str_includes h (js ''balance'')) hs =
   list_ex (\<lambda>h. str_includes h (js ''balance'')) hs"
  by (auto simp: list_ex_iff intro: bexI [where x = "js ''balance''"])

subsection \<open>The failures of the pipeline\<close>

lemma parseNetWorthReport_cases:
  "parseNetWorthReport lc rows =
     (if 2 \<le> length rows \<and> spec_missingColumns lc Networth (hd rows)
      then Inl (MissingColumns Networth) else Inr (aggregate lc Networth rows))"
  by (auto simp: parseNetWorthReport_def aggregate_def spec_missingColumns_def Let_def
        indexOf_absent findIndex_absent balance_column)

lemma parseRegister_cases:
  "parseRegister lc rows =
     (if 2 \<le> length rows \<and> spec_missingColumns lc Register (hd rows)
      then Inl (MissingColumns Register) else Inr (aggregate lc Register rows))"
  by (auto simp: parseRegister_def aggregate_def spec_missingColumns_def Let_def indexOf_absent)

lemma register_detected:
  "detectYNABFormat lc hdr = Some Register \<Longrightarrow> \<not> spec_missingColumns lc Register hdr"
  by (auto simp: detectYNABFormat_def spec_missingColumns_def Let_def split: if_splits)

lemma mapSet_keys:
  "map fst (mapSet k v m) = (if k \<in> set (map fst m) then map fst m else map fst m @ [k])"
  by (induction m) force+

lemma registerStep_keys:
  "map fst (registerStep ai ii oi m r) =
     (case accountOf ai r of
        None \<Rightarrow> map fst m
      | Some n \<Rightarrow> if n \<in> set (map fst m) then map fst m else map fst m @ [n])"
  by (auto simp: registerStep_def accountOf_def Let_def mapSet_keys split: option.splits)

lemma foldl_registerStep_keys:
  "map fst (foldl (registerStep ai ii oi) [] rows) = accountNames ai rows"
proof (induction rows rule: rev_induct)
  case Nil
  then show ?case by simp
next
  case (snoc r rows)
  then show ?case
    by (simp add: registerStep_keys accountNames_snoc split: option.splits)
qed

lemma aggregate_register_names:
  assumes "\<not> spec_missingColumns lc Register hdr"
  shows "map name (aggregate lc Register (hdr # rows)) =
         accountNames (indexOf (headersOf lc hdr) (js ''account'')) rows"
proof (cases rows)
  case Nil
  then show ?thesis by (simp add: aggregate_def parseRegister_def)
next
  case (Cons r rs)
  then have "\<not> length (hdr # rows) < 2" by simp
  then have "aggregate lc Register (hdr # rows) =
        map (registerAccount lc)
          (foldl (registerStep (indexOf (headersOf lc hdr) (js ''account''))
                    (indexOf (headersOf lc hdr) (js ''inflow''))
                    (indexOf (headersOf lc hdr) (js ''outflow''))) [] rows)"
    using assms
    by (simp add: aggregate_def parseRegister_def spec_missingColumns_def Let_def indexOf_absent)
  moreover have "map name (map (registerAccount lc) xs) = map fst xs" for xs
    by (simp add: comp_def)
  ultimately show ?thesis by (simp only: foldl_registerStep_keys)
qed

lemma aggregate_networth_names:
  assumes "\<not> spec_missingColumns lc Networth hdr"
  shows "map name (aggregate lc Networth (hdr # rows)) =
         accountNames (indexOf (headersOf lc hdr) (js ''account''))
           (spec_selected (indexOf (headersOf lc hdr) (js ''month'')) rows)"
proof (cases rows)
  case Nil
  then show ?thesis by (simp add: aggregate_def parseNetWorthReport_def spec_selected_def)
next
  case (Cons r rs)
  then have "\<not> length (hdr # rows) < 2" by simp
  then show ?thesis
    using assms
    by (simp add: aggregate_def parseNetWorthReport_def spec_missingColumns_def Let_def
          indexOf_absent findIndex_absent balance_column netWorth_entries spec_lastWins_def comp_def)
qed

text \<open>
  Claim C7: \<open>parseYNABCSV\<close> fails exactly in four cases, checked in this order: no row
  (EmptyDocument); a header row of neither format (UnrecognizedFormat); at least one data
  row and the required columns of the detected format absent (MissingColumns, which cannot
  happen for the register format); no account from the aggregation (NoAccountsFound). In
  every other case the result has a non-empty list of accounts. The aggregation yields no
  account exactly when no data row (of the latest month, for the net-worth format) bears an
  account name, so the numeric fields take no part in these conditions.
\<close>

theorem parseYNABCSV_failures:
  "parseYNABCSV lc now csvText =
     (if parseCSV csvText = [] then Inl EmptyDocument
      else
        (case detectYNABFormat lc (hd (parseCSV csvText)) of
           None \<Rightarrow> Inl UnrecognizedFormat
         | Some fmt \<Rightarrow>
             if 2 \<le> length (parseCSV csvText) \<and> spec_missingColumns lc fmt (hd (parseCSV csvText))
             then Inl (MissingColumns fmt)
             else if aggregate lc fmt (parseCSV csvText) = [] then Inl NoAccountsFound
             else Inr \<lparr>format = fmt, accounts = aggregate lc fmt (parseCSV csvText),
                       parseDate = now\<rparr>)) \<and>
   (detectYNABFormat lc hdr = Some Register \<longrightarrow> \<not> spec_missingColumns lc Register hdr) \<and>
   (\<not> spec_missingColumns lc Register hdr \<longrightarrow>
      (aggregate lc Register (hdr # rows) = [] \<longleftrightarrow>
       accountNames (indexOf (headersOf lc hdr) (js ''account'')) rows = [])) \<and>
   (\<not> spec_missingColumns lc Networth hdr \<longrightarrow>
      (aggregate lc Networth (hdr # rows) = [] \<longleftrightarrow>
       accountNames (indexOf (headersOf lc hdr) (js ''account''))
         (spec_selected (indexOf (headersOf lc hdr) (js ''month'')) rows) = []))"
proof (intro conjI)
  show "parseYNABCSV lc now csvText =
     (if parseCSV csvText = [] then Inl EmptyDocument
      else
        (case detectYNABFormat lc (hd (parseCSV csvText)) of
           None \<Rightarrow> Inl UnrecognizedFormat
         | Some fmt \<Rightarrow>
             if 2 \<le> length (parseCSV csvText) \<and> spec_missingColumns lc fmt (hd (parseCSV csvText))
             then Inl (MissingColumns fmt)
             else if aggregate lc fmt (parseCSV csvText) = [] then Inl NoAccountsFound
             else Inr \<lparr>format = fmt, accounts = aggregate lc fmt (parseCSV csvText),
                       parseDate = now\<rparr>))"
  proof (cases "detectYNABFormat lc (hd (parseCSV csvText))")
    case None
    then show ?thesis by (simp add: parseYNABCSV_def Let_def)
  next
    case (Some fmt)
    then show ?thesis
      by (cases fmt)
         (simp_all add: parseYNABCSV_def Let_def parseNetWorthReport_cases parseRegister_cases)
  qed
  show "detectYNABFormat lc hdr = Some Register \<longrightarrow> \<not> spec_missingColumns lc Register hdr"
    using register_detected by blast
  show "\<not> spec_missingColumns lc Register hdr \<longrightarrow>
      (aggregate lc Register (hdr # rows) = [] \<longleftrightarrow>
       accountNames (indexOf (headersOf lc hdr) (js ''account'')) rows = [])"
    using aggregate_register_names [of lc hdr rows] by (metis map_is_Nil_conv)
  show "\<not> spec_missingColumns lc Networth hdr \<longrightarrow>
      (aggregate lc Networth (hdr # rows) = [] \<longleftrightarrow>
       accountNames (indexOf (headersOf lc hdr) (js ''account''))
         (spec_selected (indexOf (headersOf lc hdr) (js ''month'')) rows) = [])"
    using aggregate_networth_names [of lc hdr rows] by (metis map_is_Nil_conv)
qed


theorem parseYNABCSV_failures_witness:
  "parseYNABCSV asciiLower 7 (js '' '' @ [LF]) = Inl EmptyDocument \<and>
   parseYNABCSV asciiLower 7 (js ''a,b'') = Inl UnrecognizedFormat \<and>
   parseYNABCSV asciiLower 7 (js ''Month,Account Type,Bal'' @ LF # js ''2024-01,Asset,100'') =
     Inl (MissingColumns Networth) \<and>
   parseYNABCSV asciiLower 7 (js ''Month,Account Type,Bal'') = Inl NoAccountsFound \<and>
   parseYNABCSV asciiLower 7 (js ''Account,Inflow,Outflow'' @ LF # LF # js ''A,abc,\"5'') =
     Inr \<lparr>format = Register,
          accounts = [\<lparr>name = js ''A'', balance = Num (- 5), ynabType = None,
                       suggestedCategory = current_asset, suggestedAccessType = liquid\<rparr>],
          parseDate = 7\<rparr> \<and>
   detectYNABFormat asciiLower [js ''Account'', js ''Inflow'', js ''Outflow''] = Some Register \<and>
   \<not> spec_missingColumns asciiLower Register [js ''Account'', js ''Inflow'', js ''Outflow''] \<and>
   aggregate asciiLower Register
     [[js ''Account'', js ''Inflow'', js ''Outflow''], [[], js ''abc'', js ''5'']] = [] \<and>
   \<not> spec_missingColumns asciiLower Networth [js ''Month'', js ''Account'', js ''Balance''] \<and>
   aggregate asciiLower Networth
     [[js ''Month'', js ''Account'', js ''Balance''], [js ''2024-01'', js ''A'', js ''1''],
      [js ''2024-02'', [], js ''2'']] = []"
proof -
  have e: "parseYNABCSV asciiLower 7 (js '' '' @ [LF]) = Inl EmptyDocument"
    using parseYNABCSV_failures
      [where lc = asciiLower and now = 7 and csvText = "js '' '' @ [LF]", THEN conjunct1]
    by (simp add: csv_eval)
  have u: "parseYNABCSV asciiLower 7 (js ''a,b'') = Inl UnrecognizedFormat"
    using parseYNABCSV_failures
      [where lc = asciiLower and now = 7 and csvText = "js ''a,b''", THEN conjunct1]
    by (simp add: csv_eval detectYNABFormat_def header_eval)
  have m: "parseYNABCSV asciiLower 7
             (js ''Month,Account Type,Bal'' @ LF # js ''2024-01,Asset,100'') =
           Inl (MissingColumns Networth)"
    using parseYNABCSV_failures
      [where lc = asciiLower and now = 7
         and csvText = "js ''Month,Account Type,Bal'' @ LF # js ''2024-01,Asset,100''",
       THEN conjunct1]
    by (simp add: csv_eval detectYNABFormat_def spec_missingColumns_def header_eval)
  have n: "parseYNABCSV asciiLower 7 (js ''Month,Account Type,Bal'') = Inl NoAccountsFound"
    using parseYNABCSV_failures
      [where lc = asciiLower and now = 7 and csvText = "js ''Month,Account Type,Bal''",
       THEN conjunct1]
    by (simp add: csv_eval pipeline_eval spec_missingColumns_def aggregate_def header_eval)
  have r: "parseYNABCSV asciiLower 7
             (js ''Account,Inflow,Outflow'' @ LF # LF # js ''A,abc,\"5'') =
           Inr \<lparr>format = Register,
                accounts = [\<lparr>name = js ''A'', balance = Num (- 5), ynabType = None,
                             suggestedCategory = current_asset, suggestedAccessType = liquid\<rparr>],
                parseDate = 7\<rparr>"
    using parseYNABCSV_failures
      [where lc = asciiLower and now = 7
         and csvText = "js ''Account,Inflow,Outflow'' @ LF # LF # js ''A,abc,\"5''",
       THEN conjunct1]
    by (simp add: csv_eval pipeline_eval spec_missingColumns_def aggregate_def header_eval
          regex_eval currency_eval)
  have d: "detectYNABFormat asciiLower [js ''Account'', js ''Inflow'', js ''Outflow''] =
           Some Register"
    by (simp add: detectYNABFormat_def header_eval)
  have c: "\<not> spec_missingColumns asciiLower Networth [js ''Month'', js ''Account'', js ''Balance'']"
    by (simp add: spec_missingColumns_def header_eval)
  have g: "\<not> spec_missingColumns asciiLower Register [js ''Account'', js ''Inflow'', js ''Outflow''] \<and>
        aggregate asciiLower Register
          [[js ''Account'', js ''Inflow'', js ''Outflow''], [[], js ''abc'', js ''5'']] = [] \<and>
        aggregate asciiLower Networth
          [[js ''Month'', js ''Account'', js ''Balance''], [js ''2024-01'', js ''A'', js ''1''],
           [js ''2024-02'', [], js ''2'']] = []"
    using d c
      parseYNABCSV_failures
        [where lc = asciiLower and hdr = "[js ''Account'', js ''Inflow'', js ''Outflow'']"
           and rows = "[[[], js ''abc'', js ''5'']]", THEN conjunct2]
      parseYNABCSV_failures
        [where lc = asciiLower and hdr = "[js ''Month'', js ''Account'', js ''Balance'']"
           and rows = "[[js ''2024-01'', js ''A'', js ''1''], [js ''2024-02'', [], js ''2'']]",
         THEN conjunct2, THEN conjunct2, THEN conjunct2]
    by (simp add: header_eval names_eval spec_selected_def spec_maxMonth_def)
  from e u m n r d c g show ?thesis by blast
qed

subsection \<open>The type tag of an account\<close>

text \<open>
  Claim C9 at a net-worth document whose account type cell is "Savings": the cell is
  copied unchecked into \<open>ynabType\<close>, so the tag of the account is neither Asset nor
  Liability.
\<close>

theorem parseYNABCSV_unchecked_type:
  "parseYNABCSV asciiLower now
     (js ''Month,Account,Account Type,Balance'' @ LF # js ''2024-01,Foo,Savings,100'') =
   Inr \<lparr>format = Networth,
        accounts = [\<lparr>name = js ''Foo'', balance = Num 100, ynabType = Some (js ''Savings''),
                     suggestedCategory = current_asset, suggestedAccessType = liquid\<rparr>],
        parseDate = now\<rparr>"
  by (simp add: parseYNABCSV_def csv_eval pipeline_eval header_eval regex_eval currency_eval)

lemma parseRegister_no_type:
  "parseRegister lc rows = Inr accts \<Longrightarrow> list_all (\<lambda>a. ynabType a = None) accts"
  by (auto simp: parseRegister_def registerAccount_def Let_def list_all_iff split: if_splits)

subsection \<open>Rows that are shorter than the header\<close>

subsection \<open>Rows that are shorter than the header\<close>




























theorem nameless_row_counterexample:
  "accountOf 1 [js ''2024-02''] = None \<and>
   parseNetWorthReport asciiLower
     [[js ''Month'', js ''Account'', js ''Balance''],
      [js ''2024-01'', js ''A'', js ''1''],
      [js ''2024-02'']] = Inr [] \<and>
   parseNetWorthReport asciiLower
     [[js ''Month'', js ''Account'', js ''Balance''],
      [js ''2024-01'', js ''A'', js ''1'']] =
   Inr [\<lparr>name = js ''A'', balance = Num 1, ynabType = None,
          suggestedCategory = current_asset, suggestedAccessType = liquid\<rparr>]"
  by (simp add: accountOf_def parseNetWorthReport_def netWorthStep_def monthStep_def
        netWorthAccount_def suggestAccountType_def header_eval regex_eval currency_eval)

end
